theory Spec2Isabelle
  imports Complex_Main "HOL-Library.AList"
begin

section \<open>JavaScript values as the dashboard uses them\<close>

text \<open>
  The dashboard (\<^verbatim>\<open>src/frontend/src/App.jsx\<close>, and its second version with the loan
  month filter, \<^verbatim>\<open>src/unnamed/part_000\<close>) reads JSON rows and renders them. A row field is
  a JSON scalar, or \<^verbatim>\<open>undefined\<close> when the key is missing.

  A number is an exact rational or NaN: the rounding of IEEE doubles, the infinities and
  the negative zero are not modelled.
\<close>

datatype jsnum = JFin rat | JNaN

datatype jsval = JUndefined | JNull | JBool bool | JNum jsnum | JStr string

text \<open>A row is a JSON object, kept as an association list; \<^verbatim>\<open>r[k]\<close> of a missing key is
  \<^verbatim>\<open>undefined\<close>.\<close>

type_synonym row = "(string \<times> jsval) list"

definition get :: "row \<Rightarrow> string \<Rightarrow> jsval" where
  "get r k = (case map_of r k of None \<Rightarrow> JUndefined | Some v \<Rightarrow> v)"

text \<open>\<^verbatim>\<open>typeof v\<close>.\<close>

fun typeof_js :: "jsval \<Rightarrow> string" where
  "typeof_js JUndefined = ''undefined''"
| "typeof_js JNull = ''object''"
| "typeof_js (JBool b) = ''boolean''"
| "typeof_js (JNum n) = ''number''"
| "typeof_js (JStr s) = ''string''"

text \<open>ToBoolean, the test behind \<^verbatim>\<open>x ? a : b\<close>, \<^verbatim>\<open>x || d\<close> and \<^verbatim>\<open>x && y\<close>.\<close>

fun num_truthy :: "jsnum \<Rightarrow> bool" where
  "num_truthy (JFin q) = (q \<noteq> 0)"
| "num_truthy JNaN = False"

fun truthy :: "jsval \<Rightarrow> bool" where
  "truthy JUndefined = False"
| "truthy JNull = False"
| "truthy (JBool b) = b"
| "truthy (JNum n) = num_truthy n"
| "truthy (JStr s) = (s \<noteq> [])"

text \<open>\<^verbatim>\<open>a || d\<close> on values and on numbers, and \<^verbatim>\<open>a ?? d\<close>.\<close>

definition or_js :: "jsval \<Rightarrow> jsval \<Rightarrow> jsval" where
  "or_js a d = (if truthy a then a else d)"

definition num_or :: "jsnum \<Rightarrow> jsnum \<Rightarrow> jsnum" where
  "num_or a d = (if num_truthy a then a else d)"

definition nullish :: "jsval \<Rightarrow> jsval \<Rightarrow> jsval" where
  "nullish a d = (if a = JUndefined \<or> a = JNull then d else a)"

text \<open>
  \<^verbatim>\<open>Number(v)\<close>. On a string it is the language's StringToNumber, a builtin that is not
  code of the dashboard: it is the parameter \<open>s2n\<close> of every function that coerces.
\<close>

fun Number_js :: "(string \<Rightarrow> jsnum) \<Rightarrow> jsval \<Rightarrow> jsnum" where
  "Number_js s2n JUndefined = JNaN"
| "Number_js s2n JNull = JFin 0"
| "Number_js s2n (JBool b) = JFin (if b then 1 else 0)"
| "Number_js s2n (JNum n) = n"
| "Number_js s2n (JStr s) = s2n s"

text \<open>\<^verbatim>\<open>a + b\<close> on two numbers.\<close>

fun jsadd :: "jsnum \<Rightarrow> jsnum \<Rightarrow> jsnum" where
  "jsadd (JFin a) (JFin b) = JFin (a + b)"
| "jsadd _ _ = JNaN"

text \<open>\<^verbatim>\<open>s.endsWith(t)\<close>: the last \<open>length t\<close> characters of \<open>s\<close> are \<open>t\<close>.\<close>

definition endsWith :: "string \<Rightarrow> string \<Rightarrow> bool" where
  "endsWith s t = (length t \<le> length s \<and> drop (length s - length t) s = t)"

text \<open>
  \<^verbatim>\<open>String(v).endsWith(' Total')\<close>. \<^verbatim>\<open>String\<close> of a value that is not a string is one of
  \<^verbatim>\<open>undefined\<close>, \<^verbatim>\<open>null\<close>, \<^verbatim>\<open>true\<close>, \<^verbatim>\<open>false\<close>, or the text of a number (digits, sign, point,
  exponent, or \<^verbatim>\<open>NaN\<close>), which never ends in \<^verbatim>\<open> Total\<close>.
\<close>

fun String_endsWith_Total :: "jsval \<Rightarrow> bool" where
  "String_endsWith_Total (JStr s) = endsWith s '' Total''"
| "String_endsWith_Total JUndefined = endsWith ''undefined'' '' Total''"
| "String_endsWith_Total JNull = endsWith ''null'' '' Total''"
| "String_endsWith_Total (JBool b) = endsWith (if b then ''true'' else ''false'') '' Total''"
| "String_endsWith_Total (JNum n) = False"

section \<open>The table renderer\<close>

text \<open>
  A cell is what a \<^verbatim>\<open>td\<close> holds: a value rendered verbatim, or the text of
  \<^verbatim>\<open>n.toLocaleString()\<close>, which depends on the locale of the browser and is kept as such.
\<close>

datatype cell = Child jsval | LocaleText jsnum

text \<open>A column descriptor \<^verbatim>\<open>{key, header, total, format}\<close>; an absent \<^verbatim>\<open>total\<close> is falsy, an
  absent \<^verbatim>\<open>format\<close> is \<open>None\<close>.\<close>

record column =
  col_key :: string
  col_header :: string
  col_total :: bool
  col_format :: "(jsval \<Rightarrow> cell) option"

text \<open>\<^verbatim>\<open>function NumberFmt(n){ return (n??0).toLocaleString() }\<close>: on a number the locale
  text, on a string the string itself, on a boolean its name.\<close>

definition NumberFmt :: "jsval \<Rightarrow> cell" where
  "NumberFmt n =
     (case nullish n (JNum (JFin 0)) of
        JNum x \<Rightarrow> LocaleText x
      | JStr s \<Rightarrow> Child (JStr s)
      | JBool b \<Rightarrow> Child (JStr (if b then ''true'' else ''false''))
      | v \<Rightarrow> Child v)"

text \<open>\<^verbatim>\<open>c.format ? c.format(v) : v\<close>.\<close>

definition fmt :: "column \<Rightarrow> jsval \<Rightarrow> cell" where
  "fmt c v = (case col_format c of Some f \<Rightarrow> f v | None \<Rightarrow> Child v)"

text \<open>The \<^verbatim>\<open>style\<close> of a body row.\<close>

record style =
  background :: "string option"
  fontWeight :: "nat option"

definition rowStyle :: "row \<Rightarrow> style" where
  "rowStyle r =
     \<lparr> background =
         (if String_endsWith_Total (get r ''Branch Name'') then Some ''#fffbe6''
          else if get r ''Branch Name'' = JStr ''Grand Total'' then Some ''#dcfce7''
          else None),
       fontWeight = (if get r ''Branch Name'' = JStr ''Grand Total'' then Some 800 else None) \<rparr>"

text \<open>
  The \<^verbatim>\<open>totals\<close> object of \<^verbatim>\<open>DataTable\<close>: for each column with \<^verbatim>\<open>c.total\<close> whose value in the
  first row has type number, \<^verbatim>\<open>rows.reduce((s,r)=> s + (Number(r[c.key])||0), 0)\<close>.
\<close>

definition columnSum :: "(string \<Rightarrow> jsnum) \<Rightarrow> row list \<Rightarrow> string \<Rightarrow> jsnum" where
  "columnSum s2n rs k =
     foldl (\<lambda>s r. jsadd s (num_or (Number_js s2n (get r k)) (JFin 0))) (JFin 0) rs"

definition totals :: "(string \<Rightarrow> jsnum) \<Rightarrow> row \<Rightarrow> row list \<Rightarrow> column list \<Rightarrow> (string \<times> jsnum) list" where
  "totals s2n r0 rs columns =
     foldl (\<lambda>t c. if col_total c \<and> typeof_js (get r0 (col_key c)) = ''number''
                   then AList.update (col_key c) (columnSum s2n rs (col_key c)) t
                   else t) [] columns"

text \<open>\<^verbatim>\<open>totals[k]\<close>.\<close>

definition totals_get :: "(string \<times> jsnum) list \<Rightarrow> string \<Rightarrow> jsval" where
  "totals_get t k = (case map_of t k of None \<Rightarrow> JUndefined | Some n \<Rightarrow> JNum n)"

record body_row =
  tr_style :: style
  tr_cells :: "cell list"

record table =
  title :: string
  subtitle :: "string option"
  thead :: "string list"
  tbody :: "body_row list"
  tfoot :: "cell list option"

datatype table_view = NoData | Table table

definition bodyRows :: "row list \<Rightarrow> column list \<Rightarrow> body_row list" where
  "bodyRows rs columns =
     map (\<lambda>r. \<lparr> tr_style = rowStyle r,
                tr_cells = map (\<lambda>c. fmt c (get r (col_key c))) columns \<rparr>) rs"

definition footerCells :: "(string \<times> jsnum) list \<Rightarrow> column list \<Rightarrow> cell list" where
  "footerCells t columns =
     map (\<lambda>c. if col_total c then fmt c (totals_get t (col_key c)) else Child (JStr '''')) columns"

text \<open>
  \<^verbatim>\<open>function DataTable({title, rows, columns, subtitle, showFooterTotals=true})\<close> of
  \<^verbatim>\<open>src/unnamed/part_000\<close>. \<open>rs = None\<close> is a \<^verbatim>\<open>rows\<close> that is undefined.
\<close>

definition DataTable ::
  "(string \<Rightarrow> jsnum) \<Rightarrow> string \<Rightarrow> row list option \<Rightarrow> column list \<Rightarrow> string option \<Rightarrow> bool
     \<Rightarrow> table_view" where
  "DataTable s2n ttl rs columns sub showFooterTotals =
     (case rs of
        None \<Rightarrow> NoData
      | Some [] \<Rightarrow> NoData
      | Some (r0 # rest) \<Rightarrow>
          Table \<lparr> title = ttl,
                  subtitle = (case sub of None \<Rightarrow> None
                              | Some s \<Rightarrow> if s \<noteq> [] then Some s else None),
                  thead = map col_header columns,
                  tbody = bodyRows (r0 # rest) columns,
                  tfoot = (if showFooterTotals \<and> totals s2n r0 (r0 # rest) columns \<noteq> []
                           then Some (footerCells (totals s2n r0 (r0 # rest) columns) columns)
                           else None) \<rparr>)"

text \<open>\<^verbatim>\<open>function DataTable({title, rows, columns})\<close> of \<^verbatim>\<open>src/frontend/src/App.jsx\<close>: no
  subtitle, and the footer whenever \<^verbatim>\<open>totals\<close> has a key.\<close>

definition DataTable_v1 ::
  "(string \<Rightarrow> jsnum) \<Rightarrow> string \<Rightarrow> row list option \<Rightarrow> column list \<Rightarrow> table_view" where
  "DataTable_v1 s2n ttl rs columns =
     (case rs of
        None \<Rightarrow> NoData
      | Some [] \<Rightarrow> NoData
      | Some (r0 # rest) \<Rightarrow>
          Table \<lparr> title = ttl,
                  subtitle = None,
                  thead = map col_header columns,
                  tbody = bodyRows (r0 # rest) columns,
                  tfoot = (if totals s2n r0 (r0 # rest) columns \<noteq> []
                           then Some (footerCells (totals s2n r0 (r0 # rest) columns) columns)
                           else None) \<rparr>)"

section \<open>The chart mapper\<close>

text \<open>
  The chart points are the object literals of \<^verbatim>\<open>App\<close>, kept as association lists like the
  rows. \<^verbatim>\<open>loanBase\<close>, \<^verbatim>\<open>birdsBase\<close> and \<^verbatim>\<open>grantsBase\<close> are the filters,
  \<^verbatim>\<open>loanChartData\<close>, \<^verbatim>\<open>birdsChartData\<close> and \<^verbatim>\<open>grantsChartData\<close> the projections.
\<close>

definition loanBase :: "row list \<Rightarrow> row list" where
  "loanBase rs =
     filter (\<lambda>r. \<not> String_endsWith_Total (get r ''Branch Name'')
                 \<and> get r ''Branch Name'' \<noteq> JStr ''Grand Total''
                 \<and> truthy (get r ''Types of Loan'')) rs"

definition loanChartData :: "(string \<Rightarrow> jsnum) \<Rightarrow> row list \<Rightarrow> row list" where
  "loanChartData s2n rs =
     map (\<lambda>r. [(''branch'', get r ''Branch Name''),
               (''type'', get r ''Types of Loan''),
               (''amount'', JNum (Number_js s2n (or_js (get r ''Amount of Loan'') (JNum (JFin 0)))))])
       (loanBase rs)"

definition birdsBase :: "row list \<Rightarrow> row list" where
  "birdsBase rs = filter (\<lambda>r. get r ''Branch Name'' \<noteq> JStr ''Grand Total'') rs"

definition birdsChartData :: "(string \<Rightarrow> jsnum) \<Rightarrow> row list \<Rightarrow> row list" where
  "birdsChartData s2n rs =
     map (\<lambda>r. [(''branch'', get r ''Branch Name''),
               (''type'', get r ''Types of Poultry Rearing''),
               (''birds'', JNum (Number_js s2n (or_js (get r ''# of Birds'') (JNum (JFin 0)))))])
       (birdsBase rs)"

definition grantsBase :: "row list \<Rightarrow> row list" where
  "grantsBase rs = filter (\<lambda>r. get r ''Branch Name'' \<noteq> JStr ''Grand Total'') rs"

definition grantsChartData :: "(string \<Rightarrow> jsnum) \<Rightarrow> row list \<Rightarrow> row list" where
  "grantsChartData s2n rs =
     map (\<lambda>r. [(''branch'', get r ''Branch Name''),
               (''amount'', JNum (Number_js s2n (or_js (get r ''Amounts of Grants'') (JNum (JFin 0)))))])
       (grantsBase rs)"

section \<open>The data loader and the state of the application\<close>

datatype js_error = TypeError | SyntaxError

text \<open>How \<^verbatim>\<open>fetch(url).then(r=>r.json())\<close> settles: rejected (the request failed, or the
  body is not JSON), or fulfilled with the parsed object.\<close>

datatype 'a settled = Rejected js_error | Json 'a

text \<open>
  The object held by \<^verbatim>\<open>useReports\<close>, and the body of \<^verbatim>\<open>/reports/fixed\<close>: a key that the
  object does not have is \<open>None\<close> (reading it gives \<^verbatim>\<open>undefined\<close>).
\<close>

record reports =
  loan :: "row list option"
  poultry :: "row list option"
  grants :: "row list option"

text \<open>A request: the URL and its search parameters.\<close>

record request =
  url :: string
  searchParams :: "(string \<times> string) list"

text \<open>The body of \<^verbatim>\<open>/reports/loan\<close>: \<^verbatim>\<open>{rows, month_label}\<close>, either of which may be absent.\<close>

record loan_response =
  resp_rows :: "row list option"
  resp_month_label :: "string option"

text \<open>
  The state of \<^verbatim>\<open>App\<close> in \<^verbatim>\<open>src/unnamed/part_000\<close>: the \<^verbatim>\<open>useState\<close> cells, and the two
  effects on the outside, the requests sent and the lines of \<^verbatim>\<open>console.error\<close>.
\<close>

record app_state =
  data :: reports
  loading :: bool
  loanCustomRows :: "row list option"
  loanMonth :: string
  loanMonthLabel :: string
  requests :: "request list"
  console :: "js_error list"

definition initial_state :: app_state where
  "initial_state =
     \<lparr> data = \<lparr> loan = Some [], poultry = Some [], grants = Some [] \<rparr>,
       loading = True,
       loanCustomRows = None, loanMonth = [], loanMonthLabel = [],
       requests = [], console = [] \<rparr>"

text \<open>
  \<^verbatim>\<open>fetch(`${API_BASE}/reports/fixed`).then(r=>r.json()).then(setData).finally(()=>setLoading(false))\<close>:
  \<^verbatim>\<open>setData\<close> replaces the whole object by the body; \<^verbatim>\<open>finally\<close> runs either way.
\<close>

definition useReports_settle :: "reports settled \<Rightarrow> app_state \<Rightarrow> app_state" where
  "useReports_settle res s =
     (case res of
        Json body \<Rightarrow> s\<lparr> data := body, loading := False \<rparr>
      | Rejected e \<Rightarrow> s\<lparr> loading := False \<rparr>)"

section \<open>The month filter\<close>

text \<open>\<^verbatim>\<open>const loanRows = loanCustomRows ?? loan\<close>.\<close>

definition loanRows :: "app_state \<Rightarrow> row list option" where
  "loanRows s = (case loanCustomRows s of Some c \<Rightarrow> Some c | None \<Rightarrow> loan (data s))"

text \<open>\<^verbatim>\<open>new URL(`${API_BASE}/reports/loan`)\<close>, with \<^verbatim>\<open>month\<close> set when \<^verbatim>\<open>loanMonth\<close> is
  truthy. \<^verbatim>\<open>API_BASE\<close> is taken to be a valid absolute URL.\<close>

definition loanUrl :: "string \<Rightarrow> string \<Rightarrow> request" where
  "loanUrl API_BASE m =
     \<lparr> url = API_BASE @ ''/reports/loan'',
       searchParams = (if m \<noteq> [] then AList.update ''month'' m [] else []) \<rparr>"

text \<open>
  \<^verbatim>\<open>applyLoanMonth\<close>, with the answer of the network as the function \<open>net\<close>. Every
  exception of the \<^verbatim>\<open>try\<close> block ends in the \<^verbatim>\<open>catch\<close>. The \<^verbatim>\<open>await\<close> is one step: requests
  in flight at the same time are not modelled.
\<close>

definition applyLoanMonth ::
  "string \<Rightarrow> (request \<Rightarrow> loan_response settled) \<Rightarrow> app_state \<Rightarrow> app_state" where
  "applyLoanMonth API_BASE net s =
     (case net (loanUrl API_BASE (loanMonth s)) of
        Json resp \<Rightarrow>
          s\<lparr> requests := requests s @ [loanUrl API_BASE (loanMonth s)],
             loanCustomRows := Some (case resp_rows resp of Some rs \<Rightarrow> rs | None \<Rightarrow> []),
             loanMonthLabel := (case resp_month_label resp of Some l \<Rightarrow> l | None \<Rightarrow> []) \<rparr>
      | Rejected e \<Rightarrow>
          s\<lparr> requests := requests s @ [loanUrl API_BASE (loanMonth s)],
             console := console s @ [e],
             loanCustomRows := None,
             loanMonthLabel := [] \<rparr>)"

definition clearLoanMonth :: "app_state \<Rightarrow> app_state" where
  "clearLoanMonth s = s\<lparr> loanMonth := [], loanCustomRows := None, loanMonthLabel := [] \<rparr>"

text \<open>
  What the user can do once loading is over: type a month, press Apply, and press Clear,
  a button that is there only while \<^verbatim>\<open>loanCustomRows\<close> is set.
\<close>

datatype event = ChangeMonth string | ClickApply "request \<Rightarrow> loan_response settled" | ClickClear

definition step :: "string \<Rightarrow> app_state \<Rightarrow> event \<Rightarrow> app_state" where
  "step API_BASE s e =
     (if loading s then s
      else case e of
        ChangeMonth m \<Rightarrow> s\<lparr> loanMonth := m \<rparr>
      | ClickApply net \<Rightarrow> applyLoanMonth API_BASE net s
      | ClickClear \<Rightarrow> if loanCustomRows s \<noteq> None then clearLoanMonth s else s)"

definition run :: "string \<Rightarrow> app_state \<Rightarrow> event list \<Rightarrow> app_state" where
  "run API_BASE s es = foldl (step API_BASE) s es"

section \<open>The page\<close>

text \<open>The column descriptors of the three tables. The titles are written without their
  leading pictograph.\<close>

definition loanColumns :: "column list" where
  "loanColumns =
     [\<lparr> col_key = ''Sl No'', col_header = ''Sl No'', col_total = False, col_format = None \<rparr>,
      \<lparr> col_key = ''Branch Name'', col_header = ''Branch Name'', col_total = False, col_format = None \<rparr>,
      \<lparr> col_key = ''Types of Loan'', col_header = ''Types of Loan'', col_total = False, col_format = None \<rparr>,
      \<lparr> col_key = ''# of Loan'', col_header = ''# of Loan'', col_total = True, col_format = Some NumberFmt \<rparr>,
      \<lparr> col_key = ''Amount of Loan'', col_header = ''Amount of Loan'', col_total = True, col_format = Some NumberFmt \<rparr>]"

definition poultryColumns :: "column list" where
  "poultryColumns =
     [\<lparr> col_key = ''Sl No'', col_header = ''Sl No'', col_total = False, col_format = None \<rparr>,
      \<lparr> col_key = ''Branch Name'', col_header = ''Branch Name'', col_total = False, col_format = None \<rparr>,
      \<lparr> col_key = ''Types of Poultry Rearing'', col_header = ''Types of Poultry Rearing'', col_total = False, col_format = None \<rparr>,
      \<lparr> col_key = ''# of MEs'', col_header = ''# of MEs'', col_total = True, col_format = Some NumberFmt \<rparr>,
      \<lparr> col_key = ''# of Birds'', col_header = ''# of Birds'', col_total = True, col_format = Some NumberFmt \<rparr>]"

definition grantsColumns :: "column list" where
  "grantsColumns =
     [\<lparr> col_key = ''Sl No'', col_header = ''Sl No'', col_total = False, col_format = None \<rparr>,
      \<lparr> col_key = ''Branch Name'', col_header = ''Branch Name'', col_total = False, col_format = None \<rparr>,
      \<lparr> col_key = ''Number on MEs'', col_header = ''Number on MEs'', col_total = True, col_format = Some NumberFmt \<rparr>,
      \<lparr> col_key = ''Amounts of Grants'', col_header = ''Amounts of Grants'', col_total = True, col_format = Some NumberFmt \<rparr>]"

record panels =
  loanTable :: table_view
  loanChart :: "row list"
  poultryTable :: table_view
  birdsChart :: "row list"
  grantsTable :: table_view
  grantsChart :: "row list"

record dashboard = panels +
  monthInput :: string
  clearButton :: bool

datatype 'd app_view = LoadingView | Dashboard 'd

text \<open>The loan table of the second version: the rows shown are \<^verbatim>\<open>loanRows\<close>, the subtitle is
  \<^verbatim>\<open>loanMonthLabel ? `Month: ${loanMonthLabel}` : undefined\<close>, and \<^verbatim>\<open>showFooterTotals={false}\<close>.\<close>

definition loanPanel :: "(string \<Rightarrow> jsnum) \<Rightarrow> app_state \<Rightarrow> table_view" where
  "loanPanel s2n s =
     DataTable s2n ''Branch Wise Loan Disbursement'' (loanRows s) loanColumns
       (if loanMonthLabel s \<noteq> [] then Some (''Month: '' @ loanMonthLabel s) else None)
       False"

text \<open>
  \<^verbatim>\<open>App\<close> of \<^verbatim>\<open>src/unnamed/part_000\<close>. \<^verbatim>\<open>loanRows.filter\<close>, \<^verbatim>\<open>poultry.filter\<close> and
  \<^verbatim>\<open>grants.filter\<close> raise a TypeError on \<^verbatim>\<open>undefined\<close>, in this order, before anything is
  rendered.
\<close>

definition App :: "(string \<Rightarrow> jsnum) \<Rightarrow> app_state \<Rightarrow> js_error + dashboard app_view" where
  "App s2n s =
     (if loading s then Inr LoadingView
      else case loanRows s of
        None \<Rightarrow> Inl TypeError
      | Some lr \<Rightarrow>
         (case poultry (data s) of
            None \<Rightarrow> Inl TypeError
          | Some p \<Rightarrow>
             (case grants (data s) of
                None \<Rightarrow> Inl TypeError
              | Some g \<Rightarrow>
                  Inr (Dashboard
                    \<lparr> loanTable = loanPanel s2n s,
                      loanChart = loanChartData s2n lr,
                      poultryTable = DataTable s2n ''Types of Poultry Rearing'' (Some p) poultryColumns None True,
                      birdsChart = birdsChartData s2n p,
                      grantsTable = DataTable s2n ''MEs Grants Information'' (Some g) grantsColumns None True,
                      grantsChart = grantsChartData s2n g,
                      monthInput = loanMonth s,
                      clearButton = (loanCustomRows s \<noteq> None) \<rparr>))))"

text \<open>\<^verbatim>\<open>App\<close> of \<^verbatim>\<open>src/frontend/src/App.jsx\<close>, on the object and the flag of \<^verbatim>\<open>useReports\<close>.\<close>

definition App_v1 :: "(string \<Rightarrow> jsnum) \<Rightarrow> reports \<Rightarrow> bool \<Rightarrow> js_error + panels app_view" where
  "App_v1 s2n d ld =
     (if ld then Inr LoadingView
      else case loan d of
        None \<Rightarrow> Inl TypeError
      | Some l \<Rightarrow>
         (case poultry d of
            None \<Rightarrow> Inl TypeError
          | Some p \<Rightarrow>
             (case grants d of
                None \<Rightarrow> Inl TypeError
              | Some g \<Rightarrow>
                  Inr (Dashboard
                    \<lparr> loanTable = DataTable_v1 s2n ''Branch Wise Loan Disbursement'' (Some l) loanColumns,
                      loanChart = loanChartData s2n l,
                      poultryTable = DataTable_v1 s2n ''Types of Poultry Rearing'' (Some p) poultryColumns,
                      birdsChart = birdsChartData s2n p,
                      grantsTable = DataTable_v1 s2n ''MEs Grants Information'' (Some g) grantsColumns,
                      grantsChart = grantsChartData s2n g \<rparr>))))"

section \<open>The specification's side, and values for the examples\<close>

text \<open>
  The footer total in the specification's words: the sum over all rows of \<^verbatim>\<open>Number(r[C])\<close>,
  where a missing or non-numeric value (one whose \<^verbatim>\<open>Number\<close> is NaN) contributes 0.
\<close>

definition spec_contribution :: "(string \<Rightarrow> jsnum) \<Rightarrow> jsval \<Rightarrow> rat" where
  "spec_contribution s2n v = (case Number_js s2n v of JFin q \<Rightarrow> q | JNaN \<Rightarrow> 0)"

definition spec_footer_total :: "(string \<Rightarrow> jsnum) \<Rightarrow> row list \<Rightarrow> string \<Rightarrow> jsnum" where
  "spec_footer_total s2n rs k = JFin (\<Sum>r\<leftarrow>rs. spec_contribution s2n (get r k))"

text \<open>The footer row of what \<^verbatim>\<open>DataTable\<close> returns, if there is one.\<close>

definition table_footer :: "table_view \<Rightarrow> cell list option" where
  "table_footer v = (case v of NoData \<Rightarrow> None | Table t \<Rightarrow> tfoot t)"

text \<open>
  A StringToNumber for the closed examples: the empty string is 0 and a string of decimal
  digits is its value, as in the language; every other string is taken as not numeric,
  which is what the language gives for names and labels (signs, fractions, exponents and
  white space are outside this fragment). The theorems hold for every StringToNumber.
\<close>

definition StringToNumber_digits :: "string \<Rightarrow> jsnum" where
  "StringToNumber_digits s =
     (if list_all (\<lambda>c. c \<in> set ''0123456789'') s
      then JFin (of_nat (foldl (\<lambda>a c. 10 * a + (of_char c - 48)) 0 s))
      else JNaN)"

section \<open>Column totals\<close>

text \<open>The reduction of \<^verbatim>\<open>DataTable\<close> is the specification's sum.\<close>

lemma num_or_contribution:
  "num_or (Number_js s2n v) (JFin 0) = JFin (spec_contribution s2n v)"
  by (cases "Number_js s2n v") (auto simp: num_or_def spec_contribution_def)

lemma foldl_jsadd:
  "foldl (\<lambda>s r. jsadd s (num_or (Number_js s2n (get r k)) (JFin 0))) (JFin a) rs
     = JFin (a + (\<Sum>r\<leftarrow>rs. spec_contribution s2n (get r k)))"
  by (induction rs arbitrary: a) (simp_all add: num_or_contribution add.assoc)

lemma columnSum_spec: "columnSum s2n rs k = spec_footer_total s2n rs k"
  by (simp add: columnSum_def spec_footer_total_def foldl_jsadd)

lemma map_of_totals_foldl:
  "map_of (foldl (\<lambda>t c. if col_total c \<and> typeof_js (get r0 (col_key c)) = ''number''
                   then AList.update (col_key c) (columnSum s2n rs (col_key c)) t
                   else t) t0 columns) k
     = (if \<exists>c\<in>set columns. col_key c = k \<and> col_total c \<and> typeof_js (get r0 (col_key c)) = ''number''
        then Some (columnSum s2n rs k) else map_of t0 k)"
  by (induction columns arbitrary: t0) (auto simp: update_conv')

lemma map_of_totals:
  "map_of (totals s2n r0 rs columns) k
     = (if \<exists>c\<in>set columns. col_key c = k \<and> col_total c \<and> typeof_js (get r0 (col_key c)) = ''number''
        then Some (columnSum s2n rs k) else None)"
  unfolding totals_def map_of_totals_foldl by auto

lemma totals_nonempty:
  "totals s2n r0 rs columns \<noteq> [] \<longleftrightarrow>
     (\<exists>c\<in>set columns. col_total c \<and> typeof_js (get r0 (col_key c)) = ''number'')"
proof -
  have "totals s2n r0 rs columns = [] \<longleftrightarrow> (\<forall>k. map_of (totals s2n r0 rs columns) k = None)"
    by (metis map_of_eq_empty_iff)
  then show ?thesis by (auto simp: map_of_totals)
qed

lemma DataTable_v1_eq: "DataTable_v1 s2n ttl rs columns = DataTable s2n ttl rs columns None True"
  by (simp add: DataTable_v1_def DataTable_def split: option.splits list.splits)

lemma table_footer_DataTable:
  "table_footer (DataTable s2n ttl (Some (r0 # rest)) columns sub shw)
     = (if shw \<and> (\<exists>c\<in>set columns. col_total c \<and> typeof_js (get r0 (col_key c)) = ''number'')
        then Some (footerCells (totals s2n r0 (r0 # rest) columns) columns) else None)"
  by (simp add: table_footer_def DataTable_def totals_nonempty)

text \<open>
  Claim C1, as the code has it. \<^verbatim>\<open>totals\<close> gets a key only for a summable column whose value
  in the first row has type number. For every non-empty row sequence and every such
  column, with the footer not suppressed, a footer is rendered in both versions of
  \<^verbatim>\<open>DataTable\<close>; it has one cell per column; the cell of each summable column that passes
  the first-row test is the column's formatter applied to the sum over all rows of
  \<^verbatim>\<open>Number(r[C])\<close>, a missing or non-numeric value contributing 0; the cell of each column
  not flagged summable is the empty string.
\<close>

theorem footer_total_is_column_sum:
  assumes "c \<in> set columns" and "col_total c"
    and "typeof_js (get r0 (col_key c)) = ''number''"
  shows "\<exists>fs. table_footer (DataTable s2n ttl (Some (r0 # rest)) columns sub True) = Some fs
           \<and> table_footer (DataTable_v1 s2n ttl (Some (r0 # rest)) columns) = Some fs
           \<and> length fs = length columns
           \<and> (\<forall>i<length columns.
                 (col_total (columns ! i) \<and> typeof_js (get r0 (col_key (columns ! i))) = ''number''
                    \<longrightarrow> fs ! i = fmt (columns ! i)
                          (JNum (spec_footer_total s2n (r0 # rest) (col_key (columns ! i)))))
               \<and> (\<not> col_total (columns ! i) \<longrightarrow> fs ! i = Child (JStr '''')))"
proof -
  let ?t = "totals s2n r0 (r0 # rest) columns"
  have ex: "\<exists>c\<in>set columns. col_total c \<and> typeof_js (get r0 (col_key c)) = ''number''"
    using assms by blast
  have f2: "table_footer (DataTable s2n ttl (Some (r0 # rest)) columns sub True)
              = Some (footerCells ?t columns)"
    using ex by (simp add: table_footer_DataTable)
  have f1: "table_footer (DataTable_v1 s2n ttl (Some (r0 # rest)) columns)
              = Some (footerCells ?t columns)"
    using ex by (simp add: DataTable_v1_eq table_footer_DataTable)
  have cellv: "footerCells ?t columns ! i
                 = fmt (columns ! i) (JNum (spec_footer_total s2n (r0 # rest) (col_key (columns ! i))))"
    if "i < length columns" "col_total (columns ! i)"
       "typeof_js (get r0 (col_key (columns ! i))) = ''number''" for i
  proof -
    have "map_of ?t (col_key (columns ! i)) = Some (columnSum s2n (r0 # rest) (col_key (columns ! i)))"
      using that by (auto simp: map_of_totals intro!: bexI[of _ "columns ! i"])
    then show ?thesis
      using that by (simp add: footerCells_def totals_get_def columnSum_spec)
  qed
  have celle: "footerCells ?t columns ! i = Child (JStr '''')"
    if "i < length columns" "\<not> col_total (columns ! i)" for i
    using that by (simp add: footerCells_def)
  have len: "length (footerCells ?t columns) = length columns"
    by (simp add: footerCells_def)
  show ?thesis
    using f1 f2 len cellv celle by blast
qed

text \<open>
  The example of the specification: three rows of 100 each, the branch column not
  summable, the amount column summable; the footer is an empty cell and the locale text
  of 300.
\<close>

theorem footer_total_is_column_sum_witness:
  "table_footer
     (DataTable StringToNumber_digits ''Loans''
        (Some [[(''Branch Name'', JStr ''A''), (''Amount of Loan'', JNum (JFin 100))],
               [(''Branch Name'', JStr ''A Total''), (''Amount of Loan'', JNum (JFin 100))],
               [(''Branch Name'', JStr ''Grand Total''), (''Amount of Loan'', JNum (JFin 100))]])
        [\<lparr> col_key = ''Branch Name'', col_header = ''Branch Name'', col_total = False, col_format = None \<rparr>,
         \<lparr> col_key = ''Amount of Loan'', col_header = ''Amount of Loan'', col_total = True,
           col_format = Some NumberFmt \<rparr>]
        None True)
     = Some [Child (JStr ''''), LocaleText (JFin 300)]"
proof -
  let ?c = "\<lparr> col_key = ''Amount of Loan'', col_header = ''Amount of Loan'', col_total = True,
              col_format = Some NumberFmt \<rparr>"
  let ?cols = "[\<lparr> col_key = ''Branch Name'', col_header = ''Branch Name'', col_total = False,
                  col_format = None \<rparr>, ?c]"
  let ?r0 = "[(''Branch Name'', JStr ''A''), (''Amount of Loan'', JNum (JFin 100))]"
  let ?rest = "[[(''Branch Name'', JStr ''A Total''), (''Amount of Loan'', JNum (JFin 100))],
               [(''Branch Name'', JStr ''Grand Total''), (''Amount of Loan'', JNum (JFin 100))]]"
  have "?c \<in> set ?cols" by simp
  moreover have "col_total ?c" by simp
  moreover have "typeof_js (get ?r0 (col_key ?c)) = ''number''" by (simp add: get_def)
  ultimately obtain fs where
    fs: "table_footer (DataTable StringToNumber_digits ''Loans'' (Some (?r0 # ?rest)) ?cols None True) = Some fs"
    and len: "length fs = length ?cols"
    and cells: "\<forall>i<length ?cols.
        (col_total (?cols ! i) \<and> typeof_js (get ?r0 (col_key (?cols ! i))) = ''number''
           \<longrightarrow> fs ! i = fmt (?cols ! i)
                 (JNum (spec_footer_total StringToNumber_digits (?r0 # ?rest) (col_key (?cols ! i)))))
      \<and> (\<not> col_total (?cols ! i) \<longrightarrow> fs ! i = Child (JStr ''''))"
    using footer_total_is_column_sum [of ?c ?cols ?r0 StringToNumber_digits "''Loans''" ?rest None]
    by blast
  from cells have "fs ! 0 = Child (JStr '''')" by simp
  moreover from cells have "fs ! 1 = LocaleText (JFin 300)"
    by (simp add: get_def fmt_def NumberFmt_def nullish_def spec_footer_total_def spec_contribution_def)
  moreover from len have "fs = [fs ! 0, fs ! 1]"
    by (cases fs; cases "tl fs"; cases "tl (tl fs)") auto
  ultimately have "fs = [Child (JStr ''''), LocaleText (JFin 300)]" by simp
  with fs show ?thesis by simp
qed

text \<open>
  Claim C1 as stated fails where the first row has no value in the summable column: the
  sum of the column is 100, and no footer is rendered at all. Nor is one rendered, for a
  first row that holds a number, when the caller suppresses the footer.
\<close>

theorem footer_total_counterexample:
  "table_footer
     (DataTable StringToNumber_digits ''Loans''
        (Some [[(''Branch Name'', JStr ''A'')],
               [(''Branch Name'', JStr ''B''), (''Amount of Loan'', JNum (JFin 100))]])
        [\<lparr> col_key = ''Amount of Loan'', col_header = ''Amount of Loan'', col_total = True,
           col_format = None \<rparr>]
        None True) = None
   \<and> spec_footer_total StringToNumber_digits
        [[(''Branch Name'', JStr ''A'')],
         [(''Branch Name'', JStr ''B''), (''Amount of Loan'', JNum (JFin 100))]]
        ''Amount of Loan'' = JFin 100
   \<and> table_footer
     (DataTable StringToNumber_digits ''Loans''
        (Some [[(''Branch Name'', JStr ''B''), (''Amount of Loan'', JNum (JFin 100))]])
        [\<lparr> col_key = ''Amount of Loan'', col_header = ''Amount of Loan'', col_total = True,
           col_format = None \<rparr>]
        None False) = None
   \<and> spec_footer_total StringToNumber_digits
        [[(''Branch Name'', JStr ''B''), (''Amount of Loan'', JNum (JFin 100))]]
        ''Amount of Loan'' = JFin 100"
  by (simp add: table_footer_def DataTable_def totals_def get_def
      spec_footer_total_def spec_contribution_def)

section \<open>Row markers\<close>

text \<open>
  Claim C2. The row whose Branch Name is \<^verbatim>\<open>Grand Total\<close> is bold (weight 800), but its
  background is the subtotal highlight \<^verbatim>\<open>#fffbe6\<close>, the same as that of a row named
  \<^verbatim>\<open>A Total\<close>: \<^verbatim>\<open>Grand Total\<close> ends in \<^verbatim>\<open> Total\<close>, and the suffix test comes first. No row at
  all gets the grand-total highlight \<^verbatim>\<open>#dcfce7\<close>.
\<close>

theorem grand_total_row_gets_subtotal_highlight:
  "rowStyle [(''Branch Name'', JStr ''Grand Total'')]
     = \<lparr> background = Some ''#fffbe6'', fontWeight = Some 800 \<rparr>
   \<and> rowStyle [(''Branch Name'', JStr ''A Total'')]
     = \<lparr> background = Some ''#fffbe6'', fontWeight = None \<rparr>
   \<and> background (rowStyle r) \<noteq> Some ''#dcfce7''"
  by (simp add: rowStyle_def get_def endsWith_def)

section \<open>Chart projection\<close>

lemma set_loanBase:
  "r \<in> set (loanBase rs) \<longleftrightarrow>
     r \<in> set rs \<and> \<not> String_endsWith_Total (get r ''Branch Name'')
       \<and> get r ''Branch Name'' \<noteq> JStr ''Grand Total'' \<and> truthy (get r ''Types of Loan'')"
  by (simp add: loanBase_def)

lemma set_birdsBase:
  "r \<in> set (birdsBase rs) \<longleftrightarrow> r \<in> set rs \<and> get r ''Branch Name'' \<noteq> JStr ''Grand Total''"
  by (simp add: birdsBase_def)

lemma set_grantsBase:
  "r \<in> set (grantsBase rs) \<longleftrightarrow> r \<in> set rs \<and> get r ''Branch Name'' \<noteq> JStr ''Grand Total''"
  by (simp add: grantsBase_def)

lemma Grand_Total_endsWith: "endsWith ''Grand Total'' '' Total''"
  by (simp add: endsWith_def)

text \<open>
  Claim C3, as the code has it. Every chart leaves out the rows whose Branch Name is
  \<^verbatim>\<open>Grand Total\<close>; the loan chart also leaves out the rows whose Branch Name ends in
  \<^verbatim>\<open> Total\<close> and the rows whose \<^verbatim>\<open>Types of Loan\<close> is missing, null or empty; a loan row with
  a Branch Name not ending in \<^verbatim>\<open> Total\<close> and a non-empty loan type stays, and so does every
  poultry or grants row whose Branch Name is not \<^verbatim>\<open>Grand Total\<close>. Each remaining row
  is projected, in order, to \<^verbatim>\<open>{branch, type, amount}\<close> for loans, to
  \<^verbatim>\<open>{branch, type, birds}\<close> for poultry and to \<^verbatim>\<open>{branch, amount}\<close>, with no category, for
  grants; the number is \<^verbatim>\<open>Number\<close> of the field when the field is truthy and 0 otherwise,
  so 0 for a missing field.
\<close>

theorem chart_projection:
  "(get g ''Branch Name'' = JStr ''Grand Total''
      \<longrightarrow> g \<notin> set (loanBase rs) \<and> g \<notin> set (birdsBase rs) \<and> g \<notin> set (grantsBase rs))
   \<and> (get u ''Branch Name'' = JStr b \<and> endsWith b '' Total'' \<longrightarrow> u \<notin> set (loanBase rs))
   \<and> (get m ''Types of Loan'' = JUndefined \<or> get m ''Types of Loan'' = JNull
        \<or> get m ''Types of Loan'' = JStr '''' \<longrightarrow> m \<notin> set (loanBase rs))
   \<and> (k \<in> set rs \<and> get k ''Branch Name'' = JStr kb \<and> \<not> endsWith kb '' Total''
        \<and> get k ''Types of Loan'' = JStr kt \<and> kt \<noteq> '''' \<longrightarrow> k \<in> set (loanBase rs))
   \<and> (k' \<in> set rs \<and> get k' ''Branch Name'' \<noteq> JStr ''Grand Total''
        \<longrightarrow> k' \<in> set (birdsBase rs) \<and> k' \<in> set (grantsBase rs))
   \<and> loanChartData s2n rs =
        map (\<lambda>r. [(''branch'', get r ''Branch Name''), (''type'', get r ''Types of Loan''),
                  (''amount'', JNum (if truthy (get r ''Amount of Loan'')
                                     then Number_js s2n (get r ''Amount of Loan'') else JFin 0))])
          (loanBase rs)
   \<and> birdsChartData s2n rs =
        map (\<lambda>r. [(''branch'', get r ''Branch Name''), (''type'', get r ''Types of Poultry Rearing''),
                  (''birds'', JNum (if truthy (get r ''# of Birds'')
                                    then Number_js s2n (get r ''# of Birds'') else JFin 0))])
          (birdsBase rs)
   \<and> grantsChartData s2n rs =
        map (\<lambda>r. [(''branch'', get r ''Branch Name''),
                  (''amount'', JNum (if truthy (get r ''Amounts of Grants'')
                                     then Number_js s2n (get r ''Amounts of Grants'') else JFin 0))])
          (grantsBase rs)
   \<and> \<not> truthy JUndefined"
proof -
  have a: "get g ''Branch Name'' = JStr ''Grand Total''
      \<longrightarrow> g \<notin> set (loanBase rs) \<and> g \<notin> set (birdsBase rs) \<and> g \<notin> set (grantsBase rs)"
    by (simp add: set_loanBase set_birdsBase set_grantsBase)
  have b: "get u ''Branch Name'' = JStr b \<and> endsWith b '' Total'' \<longrightarrow> u \<notin> set (loanBase rs)"
    by (simp add: set_loanBase)
  have c: "get m ''Types of Loan'' = JUndefined \<or> get m ''Types of Loan'' = JNull
        \<or> get m ''Types of Loan'' = JStr '''' \<longrightarrow> m \<notin> set (loanBase rs)"
    by (auto simp: set_loanBase)
  have d: "k \<in> set rs \<and> get k ''Branch Name'' = JStr kb \<and> \<not> endsWith kb '' Total''
        \<and> get k ''Types of Loan'' = JStr kt \<and> kt \<noteq> '''' \<longrightarrow> k \<in> set (loanBase rs)"
    using Grand_Total_endsWith by (auto simp: set_loanBase)
  have e: "k' \<in> set rs \<and> get k' ''Branch Name'' \<noteq> JStr ''Grand Total''
        \<longrightarrow> k' \<in> set (birdsBase rs) \<and> k' \<in> set (grantsBase rs)"
    by (simp add: set_birdsBase set_grantsBase)
  have f: "Number_js s2n (or_js v (JNum (JFin 0))) = (if truthy v then Number_js s2n v else JFin 0)" for v
    by (simp add: or_js_def)
  show ?thesis
    using a b c d e by (simp add: loanChartData_def birdsChartData_def grantsChartData_def f)
qed

text \<open>Four loan rows: a branch row, a row without loan type, a subtotal and the grand
  total. Only the first is charted.\<close>

theorem chart_projection_witness:
  "[(''Branch Name'', JStr ''Grand Total''), (''Amount of Loan'', JNum (JFin 200))]
      \<notin> set (loanBase
          [[(''Branch Name'', JStr ''A''), (''Types of Loan'', JStr ''Agri''), (''Amount of Loan'', JNum (JFin 100))],
           [(''Branch Name'', JStr ''B''), (''Amount of Loan'', JNum (JFin 100))],
           [(''Branch Name'', JStr ''A Total''), (''Types of Loan'', JStr ''Agri''), (''Amount of Loan'', JNum (JFin 200))],
           [(''Branch Name'', JStr ''Grand Total''), (''Amount of Loan'', JNum (JFin 200))]])
   \<and> [(''Branch Name'', JStr ''A Total''), (''Types of Loan'', JStr ''Agri''), (''Amount of Loan'', JNum (JFin 200))]
      \<notin> set (loanBase
          [[(''Branch Name'', JStr ''A''), (''Types of Loan'', JStr ''Agri''), (''Amount of Loan'', JNum (JFin 100))],
           [(''Branch Name'', JStr ''B''), (''Amount of Loan'', JNum (JFin 100))],
           [(''Branch Name'', JStr ''A Total''), (''Types of Loan'', JStr ''Agri''), (''Amount of Loan'', JNum (JFin 200))],
           [(''Branch Name'', JStr ''Grand Total''), (''Amount of Loan'', JNum (JFin 200))]])
   \<and> [(''Branch Name'', JStr ''B''), (''Amount of Loan'', JNum (JFin 100))]
      \<notin> set (loanBase
          [[(''Branch Name'', JStr ''A''), (''Types of Loan'', JStr ''Agri''), (''Amount of Loan'', JNum (JFin 100))],
           [(''Branch Name'', JStr ''B''), (''Amount of Loan'', JNum (JFin 100))],
           [(''Branch Name'', JStr ''A Total''), (''Types of Loan'', JStr ''Agri''), (''Amount of Loan'', JNum (JFin 200))],
           [(''Branch Name'', JStr ''Grand Total''), (''Amount of Loan'', JNum (JFin 200))]])
   \<and> [(''Branch Name'', JStr ''A''), (''Types of Loan'', JStr ''Agri''), (''Amount of Loan'', JNum (JFin 100))]
      \<in> set (loanBase
          [[(''Branch Name'', JStr ''A''), (''Types of Loan'', JStr ''Agri''), (''Amount of Loan'', JNum (JFin 100))],
           [(''Branch Name'', JStr ''B''), (''Amount of Loan'', JNum (JFin 100))],
           [(''Branch Name'', JStr ''A Total''), (''Types of Loan'', JStr ''Agri''), (''Amount of Loan'', JNum (JFin 200))],
           [(''Branch Name'', JStr ''Grand Total''), (''Amount of Loan'', JNum (JFin 200))]])
   \<and> [(''Branch Name'', JStr ''B''), (''Amount of Loan'', JNum (JFin 100))]
      \<in> set (grantsBase
          [[(''Branch Name'', JStr ''A''), (''Types of Loan'', JStr ''Agri''), (''Amount of Loan'', JNum (JFin 100))],
           [(''Branch Name'', JStr ''B''), (''Amount of Loan'', JNum (JFin 100))],
           [(''Branch Name'', JStr ''A Total''), (''Types of Loan'', JStr ''Agri''), (''Amount of Loan'', JNum (JFin 200))],
           [(''Branch Name'', JStr ''Grand Total''), (''Amount of Loan'', JNum (JFin 200))]])
   \<and> loanChartData StringToNumber_digits
          [[(''Branch Name'', JStr ''A''), (''Types of Loan'', JStr ''Agri''), (''Amount of Loan'', JNum (JFin 100))],
           [(''Branch Name'', JStr ''B''), (''Amount of Loan'', JNum (JFin 100))],
           [(''Branch Name'', JStr ''A Total''), (''Types of Loan'', JStr ''Agri''), (''Amount of Loan'', JNum (JFin 200))],
           [(''Branch Name'', JStr ''Grand Total''), (''Amount of Loan'', JNum (JFin 200))]]
       = [[(''branch'', JStr ''A''), (''type'', JStr ''Agri''), (''amount'', JNum (JFin 100))]]"
proof -
  let ?a = "[(''Branch Name'', JStr ''A''), (''Types of Loan'', JStr ''Agri''), (''Amount of Loan'', JNum (JFin 100))]"
  let ?b = "[(''Branch Name'', JStr ''B''), (''Amount of Loan'', JNum (JFin 100))]"
  let ?t = "[(''Branch Name'', JStr ''A Total''), (''Types of Loan'', JStr ''Agri''), (''Amount of Loan'', JNum (JFin 200))]"
  let ?g = "[(''Branch Name'', JStr ''Grand Total''), (''Amount of Loan'', JNum (JFin 200))]"
  let ?rs = "[?a, ?b, ?t, ?g]"
  note th = chart_projection [where g = ?g and rs = ?rs and u = ?t and b = "''A Total''"
      and m = ?b and k = ?a and kb = "''A''" and kt = "''Agri''" and k' = ?b
      and ?s2n = StringToNumber_digits]
  have base: "loanBase ?rs = [?a]"
    by (simp add: loanBase_def get_def endsWith_def)
  from th have "?g \<notin> set (loanBase ?rs)" by (simp add: get_def)
  moreover from th have "?t \<notin> set (loanBase ?rs)" by (simp add: get_def endsWith_def)
  moreover from th have "?b \<notin> set (loanBase ?rs)" by (simp add: get_def)
  moreover from th have "?a \<in> set (loanBase ?rs)" by (simp add: get_def endsWith_def)
  moreover from th have "?b \<in> set (grantsBase ?rs)" by (simp add: get_def)
  moreover from th have "loanChartData StringToNumber_digits ?rs
       = [[(''branch'', JStr ''A''), (''type'', JStr ''Agri''), (''amount'', JNum (JFin 100))]]"
    by (simp add: base get_def)
  ultimately show ?thesis by blast
qed

text \<open>Claim C3 as stated fails on the grants chart: the point of a grants row has the two
  keys \<^verbatim>\<open>branch\<close> and \<^verbatim>\<open>amount\<close>, and no category.\<close>

theorem grants_point_has_no_category:
  "grantsChartData StringToNumber_digits
     [[(''Branch Name'', JStr ''A''), (''Amounts of Grants'', JNum (JFin 5))]]
     = [[(''branch'', JStr ''A''), (''amount'', JNum (JFin 5))]]
   \<and> map (map fst) (grantsChartData StringToNumber_digits
        [[(''Branch Name'', JStr ''A''), (''Amounts of Grants'', JNum (JFin 5))]])
     = [[''branch'', ''amount'']]"
  by (simp add: grantsChartData_def grantsBase_def get_def or_js_def)

section \<open>The month filter\<close>

text \<open>No action of the user changes the fetched datasets.\<close>

lemma data_applyLoanMonth: "data (applyLoanMonth API_BASE net s) = data s"
  by (simp add: applyLoanMonth_def split: settled.splits)

lemma data_step: "data (step API_BASE s e) = data s"
  by (simp add: step_def clearLoanMonth_def data_applyLoanMonth split: event.splits)

lemma data_run: "data (run API_BASE s es) = data s"
  unfolding run_def by (induction es arbitrary: s) (simp_all add: data_step)

text \<open>
  Claim C4. After any sequence of month changes, Apply clicks (whatever the network
  answers) and Clear clicks, \<^verbatim>\<open>clearLoanMonth\<close> leaves a state in which the rows shown are
  the fixed loan rows of the start, the override is gone, the month selector and the
  label are empty, and the loan table is the table of the fixed rows without subtitle.
\<close>

theorem clear_restores_fixed_loan:
  "loanRows (clearLoanMonth (run API_BASE s es)) = loan (data s)
   \<and> loanCustomRows (clearLoanMonth (run API_BASE s es)) = None
   \<and> loanMonth (clearLoanMonth (run API_BASE s es)) = []
   \<and> loanMonthLabel (clearLoanMonth (run API_BASE s es)) = []
   \<and> loanPanel s2n (clearLoanMonth (run API_BASE s es))
       = DataTable s2n ''Branch Wise Loan Disbursement'' (loan (data s)) loanColumns None False"
proof -
  have "data (clearLoanMonth (run API_BASE s es)) = data s"
    by (simp add: clearLoanMonth_def data_run)
  then show ?thesis
    by (simp add: loanRows_def loanPanel_def clearLoanMonth_def)
qed

text \<open>
  Claim C5. When the request of \<^verbatim>\<open>applyLoanMonth\<close> is rejected, the override and the label
  are cleared, the rows shown are the fixed loan rows, the error goes to the console, and
  the page is the page of the state with override and label cleared: nothing of the
  failure is rendered.
\<close>

theorem apply_failure_reverts_to_fixed:
  assumes "net (loanUrl API_BASE (loanMonth s)) = Rejected e"
  shows "loanCustomRows (applyLoanMonth API_BASE net s) = None
   \<and> loanMonthLabel (applyLoanMonth API_BASE net s) = []
   \<and> loanRows (applyLoanMonth API_BASE net s) = loan (data s)
   \<and> console (applyLoanMonth API_BASE net s) = console s @ [e]
   \<and> App s2n (applyLoanMonth API_BASE net s)
       = App s2n (s\<lparr> loanCustomRows := None, loanMonthLabel := [] \<rparr>)"
  using assms
  by (simp add: applyLoanMonth_def loanRows_def App_def loanPanel_def split: option.splits)

text \<open>A state with an override and a label, and a network that rejects.\<close>

theorem apply_failure_reverts_to_fixed_witness:
  "(let s = \<lparr> data = \<lparr> loan = Some [[(''Branch Name'', JStr ''A'')]], poultry = Some [], grants = Some [] \<rparr>,
              loading = False,
              loanCustomRows = Some [[(''Branch Name'', JStr ''B'')]],
              loanMonth = ''2024-06'', loanMonthLabel = ''May 2024'',
              requests = [], console = [] \<rparr>;
        s' = applyLoanMonth ''http://localhost:8000'' (\<lambda>r. Rejected TypeError) s
    in loanCustomRows s' = None \<and> loanMonthLabel s' = []
       \<and> loanRows s' = Some [[(''Branch Name'', JStr ''A'')]]
       \<and> console s' = [TypeError])"
  using apply_failure_reverts_to_fixed
    [of "\<lambda>r. Rejected TypeError" "''http://localhost:8000''"
        "\<lparr> data = \<lparr> loan = Some [[(''Branch Name'', JStr ''A'')]], poultry = Some [], grants = Some [] \<rparr>,
              loading = False,
              loanCustomRows = Some [[(''Branch Name'', JStr ''B'')]],
              loanMonth = ''2024-06'', loanMonthLabel = ''May 2024'',
              requests = [], console = [] \<rparr>" TypeError StringToNumber_digits]
  by (simp add: Let_def)

text \<open>
  Claim C6. \<^verbatim>\<open>applyLoanMonth\<close> sends one request, to \<^verbatim>\<open>API_BASE/reports/loan\<close>, whose
  \<^verbatim>\<open>month\<close> parameter is the month selected when that is non-empty and is absent (no
  parameter at all) when it is empty. When the request is fulfilled, the override becomes
  the \<^verbatim>\<open>rows\<close> of the body, or the empty sequence when the body has none, and the label
  becomes its \<^verbatim>\<open>month_label\<close>, or the empty string when the body has none.
\<close>

theorem apply_success_replaces_override:
  assumes "net (loanUrl API_BASE (loanMonth s)) = Json resp"
  shows "requests (applyLoanMonth API_BASE net s) = requests s @ [loanUrl API_BASE (loanMonth s)]
   \<and> url (loanUrl API_BASE (loanMonth s)) = API_BASE @ ''/reports/loan''
   \<and> map_of (searchParams (loanUrl API_BASE (loanMonth s))) ''month''
       = (if loanMonth s = [] then None else Some (loanMonth s))
   \<and> (searchParams (loanUrl API_BASE (loanMonth s)) = [] \<longleftrightarrow> loanMonth s = [])
   \<and> loanCustomRows (applyLoanMonth API_BASE net s)
       = Some (case resp_rows resp of Some rs \<Rightarrow> rs | None \<Rightarrow> [])
   \<and> loanMonthLabel (applyLoanMonth API_BASE net s)
       = (case resp_month_label resp of Some l \<Rightarrow> l | None \<Rightarrow> [])
   \<and> loanRows (applyLoanMonth API_BASE net s)
       = Some (case resp_rows resp of Some rs \<Rightarrow> rs | None \<Rightarrow> [])"
  using assms by (simp add: applyLoanMonth_def loanRows_def loanUrl_def)

text \<open>Month 2024-05 answered with one row and a label; then no month, answered with an
  empty object.\<close>

theorem apply_success_replaces_override_witness:
  "(let s = \<lparr> data = \<lparr> loan = Some [[(''Branch Name'', JStr ''A'')]], poultry = Some [], grants = Some [] \<rparr>,
              loading = False, loanCustomRows = None,
              loanMonth = ''2024-05'', loanMonthLabel = [],
              requests = [], console = [] \<rparr>;
        s' = applyLoanMonth ''http://localhost:8000''
               (\<lambda>r. Json \<lparr> resp_rows = Some [[(''Branch Name'', JStr ''B'')]],
                            resp_month_label = Some ''May 2024'' \<rparr>) s;
        s'' = applyLoanMonth ''http://localhost:8000''
               (\<lambda>r. Json \<lparr> resp_rows = None, resp_month_label = None \<rparr>) (s\<lparr> loanMonth := [] \<rparr>)
    in requests s' = [\<lparr> url = ''http://localhost:8000/reports/loan'',
                         searchParams = [(''month'', ''2024-05'')] \<rparr>]
       \<and> loanCustomRows s' = Some [[(''Branch Name'', JStr ''B'')]]
       \<and> loanMonthLabel s' = ''May 2024''
       \<and> requests s'' = [\<lparr> url = ''http://localhost:8000/reports/loan'', searchParams = [] \<rparr>]
       \<and> loanCustomRows s'' = Some []
       \<and> loanMonthLabel s'' = [])"
proof -
  let ?s = "\<lparr> data = \<lparr> loan = Some [[(''Branch Name'', JStr ''A'')]], poultry = Some [], grants = Some [] \<rparr>,
              loading = False, loanCustomRows = None,
              loanMonth = ''2024-05'', loanMonthLabel = [],
              requests = [], console = [] \<rparr>"
  let ?n1 = "\<lambda>r::request. (Json \<lparr> resp_rows = Some [[(''Branch Name'', JStr ''B'')]],
                            resp_month_label = Some ''May 2024'' \<rparr> :: loan_response settled)"
  let ?n2 = "\<lambda>r::request. (Json \<lparr> resp_rows = None, resp_month_label = None \<rparr> :: loan_response settled)"
  note t1 = apply_success_replaces_override [of ?n1 "''http://localhost:8000''" ?s, OF refl]
  note t2 = apply_success_replaces_override
      [of ?n2 "''http://localhost:8000''" "?s\<lparr> loanMonth := [] \<rparr>", OF refl]
  from t1 have a: "requests (applyLoanMonth ''http://localhost:8000'' ?n1 ?s)
        = [\<lparr> url = ''http://localhost:8000/reports/loan'', searchParams = [(''month'', ''2024-05'')] \<rparr>]
      \<and> loanCustomRows (applyLoanMonth ''http://localhost:8000'' ?n1 ?s) = Some [[(''Branch Name'', JStr ''B'')]]
      \<and> loanMonthLabel (applyLoanMonth ''http://localhost:8000'' ?n1 ?s) = ''May 2024''"
    by (simp add: loanUrl_def)
  from t2 have b: "requests (applyLoanMonth ''http://localhost:8000'' ?n2 (?s\<lparr> loanMonth := [] \<rparr>))
        = [\<lparr> url = ''http://localhost:8000/reports/loan'', searchParams = [] \<rparr>]
      \<and> loanCustomRows (applyLoanMonth ''http://localhost:8000'' ?n2 (?s\<lparr> loanMonth := [] \<rparr>)) = Some []
      \<and> loanMonthLabel (applyLoanMonth ''http://localhost:8000'' ?n2 (?s\<lparr> loanMonth := [] \<rparr>)) = []"
    by (simp add: loanUrl_def)
  from a b show ?thesis by (simp add: Let_def)
qed

text \<open>The actions of the user do not bring the loading state back.\<close>

lemma loading_applyLoanMonth: "loading (applyLoanMonth API_BASE net s) = loading s"
  by (simp add: applyLoanMonth_def split: settled.splits)

lemma loading_step: "loading (step API_BASE s e) = loading s"
  by (simp add: step_def clearLoanMonth_def loading_applyLoanMonth split: event.splits)

lemma loading_run: "loading (run API_BASE s es) = loading s"
  unfolding run_def by (induction es arbitrary: s) (simp_all add: loading_step)

text \<open>
  Claim C7. Let loading be over in \<open>s\<close> and the poultry and grants datasets be present.
  In every state reached from \<open>s\<close> by the actions of the user: when there is an override,
  the page renders and its loan table and loan chart are those of the override's rows
  alone; when there is none and the fixed loan dataset is present, the page renders and
  its loan table and loan chart are those of the fixed loan rows of \<open>s\<close>. Whenever the
  page renders, table and chart are computed from that one row sequence.
\<close>

theorem loan_panel_shows_override_or_fixed:
  assumes "\<not> loading s" and "poultry (data s) = Some p" and "grants (data s) = Some g"
  shows "(loanCustomRows (run API_BASE s es) = Some c
            \<longrightarrow> loanRows (run API_BASE s es) = Some c
              \<and> (\<exists>d. App s2n (run API_BASE s es) = Inr (Dashboard d)
                  \<and> loanTable d = DataTable s2n ''Branch Wise Loan Disbursement'' (Some c) loanColumns
                      (if loanMonthLabel (run API_BASE s es) \<noteq> []
                       then Some (''Month: '' @ loanMonthLabel (run API_BASE s es)) else None) False
                  \<and> loanChart d = loanChartData s2n c))
   \<and> (loanCustomRows (run API_BASE s es) = None \<and> loan (data s) = Some f
            \<longrightarrow> loanRows (run API_BASE s es) = Some f
              \<and> (\<exists>d. App s2n (run API_BASE s es) = Inr (Dashboard d)
                  \<and> loanTable d = DataTable s2n ''Branch Wise Loan Disbursement'' (Some f) loanColumns
                      (if loanMonthLabel (run API_BASE s es) \<noteq> []
                       then Some (''Month: '' @ loanMonthLabel (run API_BASE s es)) else None) False
                  \<and> loanChart d = loanChartData s2n f))
   \<and> (\<forall>d. App s2n (run API_BASE s es) = Inr (Dashboard d)
          \<longrightarrow> loanTable d = DataTable s2n ''Branch Wise Loan Disbursement''
                  (loanRows (run API_BASE s es)) loanColumns
                  (if loanMonthLabel (run API_BASE s es) \<noteq> []
                   then Some (''Month: '' @ loanMonthLabel (run API_BASE s es)) else None) False
            \<and> Some (loanChart d) = map_option (loanChartData s2n) (loanRows (run API_BASE s es)))"
proof -
  let ?s = "run API_BASE s es"
  have dat: "data ?s = data s" by (rule data_run)
  have ld: "\<not> loading ?s" using assms(1) by (simp add: loading_run)
  have a: "loanCustomRows ?s = Some c
            \<longrightarrow> loanRows ?s = Some c
              \<and> (\<exists>d. App s2n ?s = Inr (Dashboard d)
                  \<and> loanTable d = DataTable s2n ''Branch Wise Loan Disbursement'' (Some c) loanColumns
                      (if loanMonthLabel ?s \<noteq> [] then Some (''Month: '' @ loanMonthLabel ?s) else None) False
                  \<and> loanChart d = loanChartData s2n c)"
    using ld dat assms(2,3) by (simp add: App_def loanRows_def loanPanel_def)
  have b: "loanCustomRows ?s = None \<and> loan (data s) = Some f
            \<longrightarrow> loanRows ?s = Some f
              \<and> (\<exists>d. App s2n ?s = Inr (Dashboard d)
                  \<and> loanTable d = DataTable s2n ''Branch Wise Loan Disbursement'' (Some f) loanColumns
                      (if loanMonthLabel ?s \<noteq> [] then Some (''Month: '' @ loanMonthLabel ?s) else None) False
                  \<and> loanChart d = loanChartData s2n f)"
    using ld dat assms(2,3) by (simp add: App_def loanRows_def loanPanel_def)
  have c: "\<forall>d. App s2n ?s = Inr (Dashboard d)
          \<longrightarrow> loanTable d = DataTable s2n ''Branch Wise Loan Disbursement'' (loanRows ?s) loanColumns
                  (if loanMonthLabel ?s \<noteq> [] then Some (''Month: '' @ loanMonthLabel ?s) else None) False
            \<and> Some (loanChart d) = map_option (loanChartData s2n) (loanRows ?s)"
    by (auto simp: App_def loanPanel_def split: if_splits option.splits)
  from a b c show ?thesis by blast
qed

text \<open>One fixed loan row. After the month 2024-05 is applied and answered with another
  row, the page shows that row alone; after Clear it shows the fixed row again.\<close>

theorem loan_panel_shows_override_or_fixed_witness:
  "(\<exists>d. App StringToNumber_digits
         (run ''http://localhost:8000''
            \<lparr> data = \<lparr> loan = Some [[(''Branch Name'', JStr ''A''), (''Types of Loan'', JStr ''Agri'')]],
                       poultry = Some [], grants = Some [] \<rparr>,
              loading = False, loanCustomRows = None, loanMonth = [], loanMonthLabel = [],
              requests = [], console = [] \<rparr>
            [ChangeMonth ''2024-05'',
             ClickApply (\<lambda>r. Json \<lparr> resp_rows = Some [[(''Branch Name'', JStr ''B''), (''Types of Loan'', JStr ''SME'')]],
                                     resp_month_label = Some ''May 2024'' \<rparr>)])
        = Inr (Dashboard d)
      \<and> loanTable d = DataTable StringToNumber_digits ''Branch Wise Loan Disbursement''
            (Some [[(''Branch Name'', JStr ''B''), (''Types of Loan'', JStr ''SME'')]]) loanColumns
            (Some ''Month: May 2024'') False
      \<and> loanChart d = [[(''branch'', JStr ''B''), (''type'', JStr ''SME''), (''amount'', JNum (JFin 0))]])
   \<and> (\<exists>d. App StringToNumber_digits
         (run ''http://localhost:8000''
            \<lparr> data = \<lparr> loan = Some [[(''Branch Name'', JStr ''A''), (''Types of Loan'', JStr ''Agri'')]],
                       poultry = Some [], grants = Some [] \<rparr>,
              loading = False, loanCustomRows = None, loanMonth = [], loanMonthLabel = [],
              requests = [], console = [] \<rparr>
            [ChangeMonth ''2024-05'',
             ClickApply (\<lambda>r. Json \<lparr> resp_rows = Some [[(''Branch Name'', JStr ''B''), (''Types of Loan'', JStr ''SME'')]],
                                     resp_month_label = Some ''May 2024'' \<rparr>),
             ClickClear])
        = Inr (Dashboard d)
      \<and> loanTable d = DataTable StringToNumber_digits ''Branch Wise Loan Disbursement''
            (Some [[(''Branch Name'', JStr ''A''), (''Types of Loan'', JStr ''Agri'')]]) loanColumns
            None False
      \<and> loanChart d = [[(''branch'', JStr ''A''), (''type'', JStr ''Agri''), (''amount'', JNum (JFin 0))]])"
proof -
  let ?f = "[[(''Branch Name'', JStr ''A''), (''Types of Loan'', JStr ''Agri'')]]"
  let ?c = "[[(''Branch Name'', JStr ''B''), (''Types of Loan'', JStr ''SME'')]]"
  let ?s = "\<lparr> data = \<lparr> loan = Some ?f, poultry = Some [], grants = Some [] \<rparr>,
              loading = False, loanCustomRows = None, loanMonth = [], loanMonthLabel = [],
              requests = [], console = [] \<rparr>"
  let ?ap = "[ChangeMonth ''2024-05'',
              ClickApply (\<lambda>r. Json \<lparr> resp_rows = Some ?c, resp_month_label = Some ''May 2024'' \<rparr>)]"
  let ?cl = "[ChangeMonth ''2024-05'',
              ClickApply (\<lambda>r. Json \<lparr> resp_rows = Some ?c, resp_month_label = Some ''May 2024'' \<rparr>),
              ClickClear]"
  have h: "\<not> loading ?s" "poultry (data ?s) = Some []" "grants (data ?s) = Some []"
    by simp_all
  have c1: "loanCustomRows (run ''http://localhost:8000'' ?s ?ap) = Some ?c"
    and l1: "loanMonthLabel (run ''http://localhost:8000'' ?s ?ap) = ''May 2024''"
    by (simp_all add: run_def step_def applyLoanMonth_def)
  have c2: "loanCustomRows (run ''http://localhost:8000'' ?s ?cl) = None \<and> loan (data ?s) = Some ?f"
    and l2: "loanMonthLabel (run ''http://localhost:8000'' ?s ?cl) = []"
    by (simp_all add: run_def step_def applyLoanMonth_def clearLoanMonth_def)
  have ch1: "loanChartData StringToNumber_digits ?c
      = [[(''branch'', JStr ''B''), (''type'', JStr ''SME''), (''amount'', JNum (JFin 0))]]"
    by (simp add: loanChartData_def loanBase_def get_def endsWith_def or_js_def)
  have ch2: "loanChartData StringToNumber_digits ?f
      = [[(''branch'', JStr ''A''), (''type'', JStr ''Agri''), (''amount'', JNum (JFin 0))]]"
    by (simp add: loanChartData_def loanBase_def get_def endsWith_def or_js_def)
  note t1 = loan_panel_shows_override_or_fixed
      [OF h, of "''http://localhost:8000''" ?ap ?c StringToNumber_digits,
       THEN conjunct1, rule_format, OF c1, THEN conjunct2]
  note t2 = loan_panel_shows_override_or_fixed
      [OF h, of "''http://localhost:8000''" ?cl _ StringToNumber_digits ?f,
       THEN conjunct2, THEN conjunct1, rule_format, OF c2, THEN conjunct2]
  from t1 have a: "\<exists>d. App StringToNumber_digits (run ''http://localhost:8000'' ?s ?ap) = Inr (Dashboard d)
      \<and> loanTable d = DataTable StringToNumber_digits ''Branch Wise Loan Disbursement''
            (Some ?c) loanColumns (Some ''Month: May 2024'') False
      \<and> loanChart d = [[(''branch'', JStr ''B''), (''type'', JStr ''SME''), (''amount'', JNum (JFin 0))]]"
    unfolding l1 ch1 by simp
  from t2 have b: "\<exists>d. App StringToNumber_digits (run ''http://localhost:8000'' ?s ?cl) = Inr (Dashboard d)
      \<and> loanTable d = DataTable StringToNumber_digits ''Branch Wise Loan Disbursement''
            (Some ?f) loanColumns None False
      \<and> loanChart d = [[(''branch'', JStr ''A''), (''type'', JStr ''Agri''), (''amount'', JNum (JFin 0))]]"
    unfolding l2 ch2 by simp
  from a b show ?thesis by (rule conjI)
qed

section \<open>Loading and empty datasets\<close>

text \<open>
  Claim C8. When the body of \<^verbatim>\<open>/reports/fixed\<close> has no \<^verbatim>\<open>loan\<close> key, the loader stores the
  body as it is, with \<^verbatim>\<open>loan\<close> undefined and not defaulted to the empty sequence, and
  \<^verbatim>\<open>App\<close> raises a TypeError in both versions.
\<close>

theorem absent_dataset_is_not_defaulted:
  "data (useReports_settle (Json \<lparr> loan = None, poultry = Some [], grants = Some [] \<rparr>) initial_state)
     = \<lparr> loan = None, poultry = Some [], grants = Some [] \<rparr>
   \<and> App s2n (useReports_settle (Json \<lparr> loan = None, poultry = Some [], grants = Some [] \<rparr>) initial_state)
     = Inl TypeError
   \<and> App_v1 s2n \<lparr> loan = None, poultry = Some [], grants = Some [] \<rparr> False = Inl TypeError"
  by (simp add: useReports_settle_def initial_state_def App_def App_v1_def loanRows_def)

text \<open>
  Claim C9. On an empty row sequence both versions of \<^verbatim>\<open>DataTable\<close> return the placeholder,
  a value and not an error, which has no footer. When loading is over, the three datasets
  are empty and there is no override (or an empty one), the page has three placeholders
  and three empty chart datasets; so has the page of the first version.
\<close>

theorem empty_rows_render_no_data:
  "DataTable s2n ttl (Some []) columns sub shw = NoData
   \<and> DataTable_v1 s2n ttl (Some []) columns = NoData
   \<and> table_footer NoData = None
   \<and> (\<not> loading s \<and> data s = \<lparr> loan = Some [], poultry = Some [], grants = Some [] \<rparr>
        \<and> (loanCustomRows s = None \<or> loanCustomRows s = Some [])
      \<longrightarrow> App s2n s = Inr (Dashboard
            \<lparr> loanTable = NoData, loanChart = [], poultryTable = NoData, birdsChart = [],
              grantsTable = NoData, grantsChart = [],
              monthInput = loanMonth s, clearButton = (loanCustomRows s \<noteq> None) \<rparr>))
   \<and> App_v1 s2n \<lparr> loan = Some [], poultry = Some [], grants = Some [] \<rparr> False
       = Inr (Dashboard
            \<lparr> loanTable = NoData, loanChart = [], poultryTable = NoData, birdsChart = [],
              grantsTable = NoData, grantsChart = [] \<rparr>)"
  by (auto simp: DataTable_def DataTable_v1_def table_footer_def App_def App_v1_def loanRows_def
      loanPanel_def loanChartData_def birdsChartData_def grantsChartData_def
      loanBase_def birdsBase_def grantsBase_def)

text \<open>The loader receives three empty datasets.\<close>

theorem empty_rows_render_no_data_witness:
  "App StringToNumber_digits
     (useReports_settle (Json \<lparr> loan = Some [], poultry = Some [], grants = Some [] \<rparr>) initial_state)
     = Inr (Dashboard
            \<lparr> loanTable = NoData, loanChart = [], poultryTable = NoData, birdsChart = [],
              grantsTable = NoData, grantsChart = [], monthInput = [], clearButton = False \<rparr>)"
  using empty_rows_render_no_data
    [of StringToNumber_digits "[]" "[]" None True
        "useReports_settle (Json \<lparr> loan = Some [], poultry = Some [], grants = Some [] \<rparr>) initial_state"]
  by (simp add: useReports_settle_def initial_state_def)

text \<open>
  Claim C10. Whenever the page of the second version renders, its loan table is
  \<^verbatim>\<open>DataTable\<close> called with \<^verbatim>\<open>showFooterTotals\<close> false and has no footer, whatever the rows;
  the poultry and grants tables are called with the footer on, and have a footer as soon
  as the first row holds a number in one of their summable columns.
\<close>

theorem loan_table_never_has_totals_footer:
  assumes "App s2n s = Inr (Dashboard d)"
  shows "table_footer (loanTable d) = None
   \<and> loanTable d = DataTable s2n ''Branch Wise Loan Disbursement'' (loanRows s) loanColumns
        (if loanMonthLabel s \<noteq> [] then Some (''Month: '' @ loanMonthLabel s) else None) False
   \<and> poultryTable d = DataTable s2n ''Types of Poultry Rearing'' (poultry (data s)) poultryColumns None True
   \<and> grantsTable d = DataTable s2n ''MEs Grants Information'' (grants (data s)) grantsColumns None True
   \<and> (poultry (data s) = Some (p0 # ps)
        \<and> (typeof_js (get p0 ''# of MEs'') = ''number'' \<or> typeof_js (get p0 ''# of Birds'') = ''number'')
      \<longrightarrow> table_footer (poultryTable d) \<noteq> None)
   \<and> (grants (data s) = Some (g0 # gs)
        \<and> (typeof_js (get g0 ''Number on MEs'') = ''number''
            \<or> typeof_js (get g0 ''Amounts of Grants'') = ''number'')
      \<longrightarrow> table_footer (grantsTable d) \<noteq> None)"
proof -
  have lt: "loanTable d = loanPanel s2n s"
    and pt: "poultryTable d = DataTable s2n ''Types of Poultry Rearing'' (poultry (data s)) poultryColumns None True"
    and gt: "grantsTable d = DataTable s2n ''MEs Grants Information'' (grants (data s)) grantsColumns None True"
    using assms by (auto simp: App_def split: if_splits option.splits)
  have nofoot: "table_footer (DataTable s2n t rs cs sb False) = None" for t rs cs sb
    by (simp add: table_footer_def DataTable_def split: option.splits list.splits)
  have pf: "table_footer (poultryTable d) \<noteq> None"
    if "poultry (data s) = Some (p0 # ps)"
       "typeof_js (get p0 ''# of MEs'') = ''number'' \<or> typeof_js (get p0 ''# of Birds'') = ''number''"
    using that by (auto simp: pt table_footer_DataTable poultryColumns_def)
  have gf: "table_footer (grantsTable d) \<noteq> None"
    if "grants (data s) = Some (g0 # gs)"
       "typeof_js (get g0 ''Number on MEs'') = ''number''
          \<or> typeof_js (get g0 ''Amounts of Grants'') = ''number''"
    using that by (auto simp: gt table_footer_DataTable grantsColumns_def)
  show ?thesis
    using lt pt gt pf gf by (simp add: nofoot loanPanel_def)
qed

text \<open>Three datasets of one row each, with numbers in every summable column.\<close>

theorem loan_table_never_has_totals_footer_witness:
  "\<exists>d. App StringToNumber_digits
         \<lparr> data = \<lparr> loan = Some [[(''Branch Name'', JStr ''A''), (''# of Loan'', JNum (JFin 2)),
                                   (''Amount of Loan'', JNum (JFin 100))]],
                    poultry = Some [[(''Branch Name'', JStr ''A''), (''# of MEs'', JNum (JFin 3)),
                                      (''# of Birds'', JNum (JFin 60))]],
                    grants = Some [[(''Branch Name'', JStr ''A''), (''Number on MEs'', JNum (JFin 1)),
                                     (''Amounts of Grants'', JNum (JFin 500))]] \<rparr>,
           loading = False, loanCustomRows = None, loanMonth = [], loanMonthLabel = [],
           requests = [], console = [] \<rparr>
        = Inr (Dashboard d)
      \<and> table_footer (loanTable d) = None
      \<and> table_footer (poultryTable d) \<noteq> None
      \<and> table_footer (grantsTable d) \<noteq> None"
proof -
  let ?p0 = "[(''Branch Name'', JStr ''A''), (''# of MEs'', JNum (JFin 3)), (''# of Birds'', JNum (JFin 60))]"
  let ?g0 = "[(''Branch Name'', JStr ''A''), (''Number on MEs'', JNum (JFin 1)), (''Amounts of Grants'', JNum (JFin 500))]"
  let ?s = "\<lparr> data = \<lparr> loan = Some [[(''Branch Name'', JStr ''A''), (''# of Loan'', JNum (JFin 2)),
                                   (''Amount of Loan'', JNum (JFin 100))]],
                    poultry = Some [?p0], grants = Some [?g0] \<rparr>,
           loading = False, loanCustomRows = None, loanMonth = [], loanMonthLabel = [],
           requests = [], console = [] \<rparr>"
  obtain d where d: "App StringToNumber_digits ?s = Inr (Dashboard d)"
    by (simp add: App_def loanRows_def)
  note th = loan_table_never_has_totals_footer [OF d, of ?p0 "[]" ?g0 "[]"]
  have hp: "poultry (data ?s) = Some [?p0]
      \<and> (typeof_js (get ?p0 ''# of MEs'') = ''number'' \<or> typeof_js (get ?p0 ''# of Birds'') = ''number'')"
    by (simp add: get_def)
  have hg: "grants (data ?s) = Some [?g0]
      \<and> (typeof_js (get ?g0 ''Number on MEs'') = ''number''
          \<or> typeof_js (get ?g0 ''Amounts of Grants'') = ''number'')"
    by (simp add: get_def)
  from th have "table_footer (loanTable d) = None" by (rule conjunct1)
  moreover from th hp have "table_footer (poultryTable d) \<noteq> None" by blast
  moreover from th hg have "table_footer (grantsTable d) \<noteq> None" by blast
  ultimately show ?thesis using d by blast
qed

end
